theory Spec2Isabelle
  imports Complex_Main
begin

section \<open>Numbers and strings of the Python source\<close>

text \<open>
  The amounts of \<^verbatim>\<open>recipe_scaler.py\<close> are JSON numbers and Python floats. They are
  modelled as exact real numbers: every product, quotient and comparison of the source is
  taken exactly, and the binary rounding error of floating-point arithmetic is not part
  of the model. The decimal literals of the source (\<^verbatim>\<open>0.25\<close>, \<^verbatim>\<open>236.588\<close>) are the
  numbers they denote.
\<close>

text \<open>
  Python's one-argument \<^verbatim>\<open>round(x)\<close>: the nearest integer, a tie going to the even
  neighbour.
\<close>

definition py_round :: "real \<Rightarrow> int" where
  "py_round x =
     (let f = \<lfloor>x\<rfloor>; d = x - of_int f
      in if d < 1 / 2 then f
         else if 1 / 2 < d then f + 1
         else if even f then f else f + 1)"

text \<open>
  Python's \<^verbatim>\<open>round(x, n)\<close> for \<open>n\<close> decimals: the nearest multiple of \<open>10\<^sup>-\<^sup>n\<close>, a tie
  going to the even last digit.
\<close>

definition round_nd :: "real \<Rightarrow> nat \<Rightarrow> real" where
  "round_nd x n = of_int (py_round (x * 10 ^ n)) / 10 ^ n"

text \<open>
  \<^verbatim>\<open>str.lower()\<close> on the ASCII letters; every other character is kept.
\<close>

definition lower_char :: "char \<Rightarrow> char" where
  "lower_char c =
     (case map_of (zip ''ABCDEFGHIJKLMNOPQRSTUVWXYZ'' ''abcdefghijklmnopqrstuvwxyz'') c of
        Some l \<Rightarrow> l
      | None \<Rightarrow> c)"

definition lower :: "string \<Rightarrow> string" where
  "lower s = map lower_char s"



section \<open>Recipes and ingredients\<close>

text \<open>
  A recipe and an ingredient are JSON objects read by \<^verbatim>\<open>json.load\<close>. Each key the
  program reads is a field that may be absent (\<open>None\<close>): \<^verbatim>\<open>'x' not in d\<close> is
  \<open>x d = None\<close>, and \<^verbatim>\<open>d['x']\<close> on an absent key raises \<^verbatim>\<open>KeyError\<close>.
\<close>

record ingredient =
  i_name :: "string option"
  i_amount :: "real option"
  i_unit :: "string option"

record recipe =
  r_name :: "string option"
  r_servings :: "real option"
  r_ingredients :: "ingredient list option"

datatype py_exn = KeyError | ZeroDivisionError

section \<open>scale_recipe\<close>

text \<open>
  The unit and rounding policy of the loop body of \<^verbatim>\<open>scale_recipe\<close> (the
  \<^verbatim>\<open>if unit == 'piece' ... else\<close> chain): it receives the scaled amount and the unit
  read from the ingredient, and writes \<^verbatim>\<open>ingredient['amount']\<close> and, on a downshift,
  \<^verbatim>\<open>ingredient['unit']\<close>.
\<close>

definition apply_policy :: "real \<Rightarrow> string \<Rightarrow> ingredient \<Rightarrow> ingredient" where
  "apply_policy scaled_amount unit ingredient =
     (if unit = ''piece'' then
        ingredient\<lparr>i_amount := Some (of_int (py_round (scaled_amount * 4)) / 4)\<rparr>
      else if unit \<in> set [''cup'', ''tbsp'', ''tsp''] then
        (if unit = ''cup'' \<and> scaled_amount < 1 / 4 then
           (let tbsp = scaled_amount * 16
            in if 1 \<le> tbsp then
                 ingredient\<lparr>i_amount := Some (round_nd tbsp 1), i_unit := Some ''tbsp''\<rparr>
               else
                 (let tsp = tbsp * 3
                  in ingredient\<lparr>i_amount := Some (round_nd tsp 1), i_unit := Some ''tsp''\<rparr>))
         else if unit = ''tbsp'' \<and> scaled_amount < 1 / 2 then
           (let tsp = scaled_amount * 3
            in ingredient\<lparr>i_amount := Some (round_nd tsp 1), i_unit := Some ''tsp''\<rparr>)
         else
           ingredient\<lparr>i_amount := Some (round_nd scaled_amount (if unit = ''cup'' then 2 else 1))\<rparr>)
      else if unit \<in> set [''g'', ''ml''] then
        ingredient\<lparr>i_amount := Some (of_int (py_round scaled_amount))\<rparr>
      else
        ingredient\<lparr>i_amount := Some (round_nd scaled_amount 1)\<rparr>)"

text \<open>
  One iteration of the loop: \<^verbatim>\<open>scaled_amount = ingredient['amount'] * scale_factor\<close>,
  \<^verbatim>\<open>unit = ingredient['unit']\<close>, then the policy.
\<close>

definition scale_ingredient :: "real \<Rightarrow> ingredient \<Rightarrow> py_exn + ingredient" where
  "scale_ingredient scale_factor ingredient =
     (case i_amount ingredient of
        None \<Rightarrow> Inl KeyError
      | Some amount \<Rightarrow>
          (let scaled_amount = amount * scale_factor
           in case i_unit ingredient of
                None \<Rightarrow> Inl KeyError
              | Some unit \<Rightarrow> Inr (apply_policy scaled_amount unit ingredient)))"

text \<open>The loop over the ingredients; an exception leaves it at once.\<close>

fun scale_ingredients :: "real \<Rightarrow> ingredient list \<Rightarrow> py_exn + ingredient list" where
  "scale_ingredients scale_factor [] = Inr []"
| "scale_ingredients scale_factor (ingredient # rest) =
     (case scale_ingredient scale_factor ingredient of
        Inl e \<Rightarrow> Inl e
      | Inr scaled \<Rightarrow>
          (case scale_ingredients scale_factor rest of
             Inl e \<Rightarrow> Inl e
           | Inr scaled_rest \<Rightarrow> Inr (scaled # scaled_rest)))"

text \<open>
  \<^verbatim>\<open>not recipe\<close> holds of \<^verbatim>\<open>None\<close> and of the empty dictionary. A dictionary with
  none of the three keys read by the program is rejected by the check that follows with
  the same return value, so keys the program never reads are not modelled.
\<close>

definition not_recipe :: "recipe option \<Rightarrow> bool" where
  "not_recipe recipe =
     (case recipe of
        None \<Rightarrow> True
      | Some r \<Rightarrow> r_name r = None \<and> r_servings r = None \<and> r_ingredients r = None)"

text \<open>
  \<^verbatim>\<open>scale_recipe(recipe, new_servings)\<close>. The result is the list of lines printed and
  either the exception raised or the value returned (\<open>None\<close> for Python's \<^verbatim>\<open>None\<close>).
\<close>

definition scale_recipe :: "recipe option \<Rightarrow> int \<Rightarrow> string list \<times> (py_exn + recipe option)" where
  "scale_recipe recipe new_servings =
     (if not_recipe recipe \<or> new_servings \<le> 0 then
        ([''Error: Invalid recipe or serving size.''], Inr None)
      else
        (case recipe of
           None \<Rightarrow> ([''Error: Invalid recipe or serving size.''], Inr None)
         | Some r \<Rightarrow>
             (case (r_servings r, r_ingredients r) of
                (Some servings, Some ingredients) \<Rightarrow>
                  (if servings = 0 then ([], Inl ZeroDivisionError)
                   else
                     (let scale_factor = of_int new_servings / servings
                      in case scale_ingredients scale_factor ingredients of
                           Inl e \<Rightarrow> ([], Inl e)
                         | Inr scaled \<Rightarrow>
                             ([], Inr (Some (r\<lparr>r_servings := Some (of_int new_servings),
                                                r_ingredients := Some scaled\<rparr>)))))
              | _ \<Rightarrow> ([''Error: Invalid recipe format.''], Inr None))))"

section \<open>The tables\<close>


text \<open>\<^verbatim>\<open>CONVERSIONS\<close>: for each unit, the factors to the other units of its family.\<close>

definition CONVERSIONS :: "(string \<times> (string \<times> real) list) list" where
  "CONVERSIONS =
     [(''tbsp'', [(''tsp'', 3), (''cup'', 1 / 16), (''pint'', 1 / 32), (''quart'', 1 / 64),
                  (''liter'', 147868 / 10000000), (''ml'', 147868 / 10000)]),
      (''tsp'', [(''tbsp'', 1 / 3), (''cup'', 1 / 48), (''pint'', 1 / 96), (''quart'', 1 / 192),
                 (''liter'', 492892 / 100000000), (''ml'', 492892 / 100000)]),
      (''cup'', [(''tbsp'', 16), (''tsp'', 48), (''pint'', 5 / 10), (''quart'', 25 / 100),
                 (''liter'', 236588 / 1000000), (''ml'', 236588 / 1000)]),
      (''pint'', [(''tbsp'', 32), (''tsp'', 96), (''cup'', 2), (''quart'', 5 / 10),
                  (''liter'', 473176 / 1000000), (''ml'', 473176 / 1000)]),
      (''quart'', [(''tbsp'', 64), (''tsp'', 192), (''cup'', 4), (''pint'', 2),
                   (''liter'', 946353 / 1000000), (''ml'', 946353 / 1000)]),
      (''liter'', [(''tbsp'', 67628 / 1000), (''tsp'', 202884 / 1000), (''cup'', 422675 / 100000),
                   (''pint'', 211338 / 100000), (''quart'', 105669 / 100000), (''ml'', 1000)]),
      (''ml'', [(''tbsp'', 67628 / 1000000), (''tsp'', 202884 / 1000000),
                (''cup'', 422675 / 100000000), (''pint'', 211338 / 100000000),
                (''quart'', 105669 / 100000000), (''liter'', 1 / 1000)]),
      (''g'', [(''kg'', 1 / 1000), (''oz'', 35274 / 1000000), (''lb'', 220462 / 100000000)]),
      (''kg'', [(''g'', 1000), (''oz'', 35274 / 1000), (''lb'', 220462 / 100000)]),
      (''oz'', [(''g'', 283495 / 10000), (''kg'', 283495 / 10000000), (''lb'', 625 / 10000)]),
      (''lb'', [(''g'', 453592 / 1000), (''kg'', 453592 / 1000000), (''oz'', 16)])]"

section \<open>convert_units\<close>

definition volume_units :: "string list" where
  "volume_units = [''tbsp'', ''tsp'', ''cup'', ''pint'', ''quart'', ''liter'', ''ml'']"

definition weight_units :: "string list" where
  "weight_units = [''g'', ''kg'', ''oz'', ''lb'']"

text \<open>
  The lookup \<^verbatim>\<open>CONVERSIONS[unit][target_unit]\<close>; \<open>None\<close> is the \<^verbatim>\<open>KeyError\<close> of a
  missing unit or target.
\<close>

definition conversion_factor :: "string \<Rightarrow> string \<Rightarrow> real option" where
  "conversion_factor unit target_unit =
     (case map_of CONVERSIONS unit of
        None \<Rightarrow> None
      | Some row \<Rightarrow> map_of row target_unit)"

text \<open>
  \<^verbatim>\<open>convert_units(amount, unit, target_unit)\<close>. The pair \<^verbatim>\<open>(None, None)\<close> of the source
  is \<open>None\<close>. The comparison \<^verbatim>\<open>unit == target_unit\<close> comes before both names are
  lowercased; a \<^verbatim>\<open>KeyError\<close> of the table lookup is caught and leads to the final
  \<^verbatim>\<open>return None, None\<close>.
\<close>

definition convert_units :: "real \<Rightarrow> string \<Rightarrow> string \<Rightarrow> (real \<times> string) option" where
  "convert_units amount unit target_unit =
     (if unit = target_unit then Some (amount, target_unit)
      else
        (let unit = lower unit; target_unit = lower target_unit
         in if (unit \<in> set volume_units \<and> target_unit \<in> set volume_units) \<or>
               (unit \<in> set weight_units \<and> target_unit \<in> set weight_units) then
              (case conversion_factor unit target_unit of
                 None \<Rightarrow> None
               | Some factor \<Rightarrow> Some (round_nd (amount * factor) 2, target_unit))
            else None))"

section \<open>get_best_unit\<close>



text \<open>The two \<^verbatim>\<open>if\<close> statements that follow the loop, and the final \<^verbatim>\<open>return\<close>.\<close>

definition best_volume_unit :: "real \<Rightarrow> string \<Rightarrow> real \<times> string" where
  "best_volume_unit amount current_unit =
     (if current_unit = ''cup'' \<and> amount < 1 / 4 \<and> 1 \<le> amount * 16 then
        (round_nd (amount * 16) 1, ''tbsp'')
      else if current_unit = ''tbsp'' \<and> amount < 1 \<and> 1 \<le> amount * 3 then
        (round_nd (amount * 3) 1, ''tsp'')
      else (amount, current_unit))"



section \<open>display_recipe: the branch for cups\<close>







section \<open>scale_recipe on a store\<close>

text \<open>
  Python dictionaries and lists are mutable objects reached through references, and
  \<^verbatim>\<open>scale_recipe\<close> copies before it writes. To say what it writes to, the objects
  live in a store: a list of objects, the address of an object being its index, and a
  new object being appended. A recipe dictionary holds a reference to its list of
  ingredients, and that list holds references to the ingredient dictionaries.
\<close>

type_synonym addr = nat

record recipe_dict =
  d_name :: "string option"
  d_servings :: "real option"
  d_ingredients :: "addr option"

datatype obj = RecipeDict recipe_dict | ListObj "addr list" | IngredientDict ingredient

type_synonym store = "obj list"

definition lookup :: "store \<Rightarrow> addr \<Rightarrow> obj option" where
  "lookup s a = (if a < length s then Some (s ! a) else None)"

text \<open>
  The recipe value held at an address: the view of the store that \<open>scale_recipe\<close> of
  the previous section works on. It is \<open>None\<close> when the address does not lead to a
  recipe dictionary whose ingredient list holds ingredient dictionaries.
\<close>

fun read_ingredients :: "store \<Rightarrow> addr list \<Rightarrow> ingredient list option" where
  "read_ingredients s [] = Some []"
| "read_ingredients s (a # as) =
     (case lookup s a of
        Some (IngredientDict d) \<Rightarrow>
          (case read_ingredients s as of
             None \<Rightarrow> None
           | Some ds \<Rightarrow> Some (d # ds))
      | _ \<Rightarrow> None)"

definition read_recipe :: "store \<Rightarrow> addr \<Rightarrow> recipe option" where
  "read_recipe s a =
     (case lookup s a of
        Some (RecipeDict r) \<Rightarrow>
          (case d_ingredients r of
             None \<Rightarrow>
               Some \<lparr>r_name = d_name r, r_servings = d_servings r, r_ingredients = None\<rparr>
           | Some l \<Rightarrow>
               (case lookup s l of
                  Some (ListObj as) \<Rightarrow>
                    (case read_ingredients s as of
                       None \<Rightarrow> None
                     | Some ds \<Rightarrow>
                         Some \<lparr>r_name = d_name r, r_servings = d_servings r,
                               r_ingredients = Some ds\<rparr>)
                | _ \<Rightarrow> None))
      | _ \<Rightarrow> None)"

text \<open>
  \<^verbatim>\<open>[ingredient.copy() for ingredient in recipe['ingredients']]\<close>: every dictionary of
  the list is copied to a new object; the result is the store and the addresses of the
  copies. \<open>None\<close> marks a store that is not shaped as described above.
\<close>

fun copy_each :: "store \<Rightarrow> addr list \<Rightarrow> (store \<times> addr list) option" where
  "copy_each s [] = Some (s, [])"
| "copy_each s (a # as) =
     (case lookup s a of
        Some (IngredientDict d) \<Rightarrow>
          (case copy_each (s @ [IngredientDict d]) as of
             None \<Rightarrow> None
           | Some (s', copies) \<Rightarrow> Some (s', length s # copies))
      | _ \<Rightarrow> None)"

text \<open>
  \<^verbatim>\<open>for ingredient in scaled_recipe['ingredients']\<close>: the body writes to the object
  the loop variable refers to. The second component is the exception that ended the
  loop, if one did.
\<close>

fun scale_each :: "real \<Rightarrow> store \<Rightarrow> addr list \<Rightarrow> (store \<times> py_exn option) option" where
  "scale_each scale_factor s [] = Some (s, None)"
| "scale_each scale_factor s (a # as) =
     (case lookup s a of
        Some (IngredientDict d) \<Rightarrow>
          (case scale_ingredient scale_factor d of
             Inl e \<Rightarrow> Some (s, Some e)
           | Inr d' \<Rightarrow> scale_each scale_factor (s[a := IngredientDict d']) as)
      | _ \<Rightarrow> None)"

text \<open>
  \<^verbatim>\<open>scale_recipe(recipe, new_servings)\<close> with its effects on the store: the lines
  printed, the final store, and the exception raised or the reference returned.
\<close>

definition scale_recipe_store ::
  "store \<Rightarrow> addr option \<Rightarrow> int \<Rightarrow> (string list \<times> store \<times> (py_exn + addr option)) option" where
  "scale_recipe_store s recipe new_servings =
     (case recipe of
        None \<Rightarrow> Some ([''Error: Invalid recipe or serving size.''], s, Inr None)
      | Some a \<Rightarrow>
          (case lookup s a of
             Some (RecipeDict r) \<Rightarrow>
               (if (d_name r = None \<and> d_servings r = None \<and> d_ingredients r = None) \<or>
                   new_servings \<le> 0 then
                  Some ([''Error: Invalid recipe or serving size.''], s, Inr None)
                else
                  (case (d_servings r, d_ingredients r) of
                     (Some servings, Some l) \<Rightarrow>
                       (case lookup s l of
                          Some (ListObj as) \<Rightarrow>
                            (let scaled_recipe = length s;
                                 s1 = s @ [RecipeDict r]
                             in case copy_each s1 as of
                                  None \<Rightarrow> None
                                | Some (s2, copies) \<Rightarrow>
                                    (let l' = length s2;
                                         s3 = (s2 @ [ListObj copies])
                                                [scaled_recipe := RecipeDict (r\<lparr>d_ingredients := Some l'\<rparr>)]
                                     in if servings = 0 then Some ([], s3, Inl ZeroDivisionError)
                                        else
                                          (let scale_factor = of_int new_servings / servings;
                                               s4 = s3[scaled_recipe :=
                                                         RecipeDict (r\<lparr>d_servings := Some (of_int new_servings),
                                                                       d_ingredients := Some l'\<rparr>)]
                                           in case scale_each scale_factor s4 copies of
                                                None \<Rightarrow> None
                                              | Some (s5, Some e) \<Rightarrow> Some ([], s5, Inl e)
                                              | Some (s5, None) \<Rightarrow>
                                                  Some ([], s5, Inr (Some scaled_recipe)))))
                        | _ \<Rightarrow> None)
                   | _ \<Rightarrow> Some ([''Error: Invalid recipe format.''], s, Inr None)))
           | _ \<Rightarrow> None))"

section \<open>Rounding\<close>



section \<open>The scaling loop\<close>

lemma scale_ingredients_Inr:
  "scale_ingredients f ingredients = Inr scaled \<Longrightarrow>
   list_all2 (\<lambda>i i'. scale_ingredient f i = Inr i') ingredients scaled"
  by (induction ingredients arbitrary: scaled) (auto split: sum.splits)




section \<open>Invalid input\<close>


text \<open>
  Two inputs that end in an exception instead: servings of zero, and an ingredient
  without amount.
\<close>

lemma scale_recipe_zero_servings:
  "scale_recipe (Some \<lparr>r_name = Some ''Broth'', r_servings = Some 0, r_ingredients = Some []\<rparr>) 4 =
     ([], Inl ZeroDivisionError)"
  by (simp add: scale_recipe_def not_recipe_def)

lemma scale_recipe_missing_amount:
  "scale_recipe
     (Some \<lparr>r_name = Some ''Broth'', r_servings = Some 2,
            r_ingredients = Some [\<lparr>i_name = Some ''salt'', i_amount = None, i_unit = Some ''tsp''\<rparr>]\<rparr>) 4 =
     ([], Inl KeyError)"
  by (simp add: scale_recipe_def not_recipe_def scale_ingredient_def)



section \<open>The unit policy of the scaling loop\<close>







lemma apply_policy_unit:
  "i_unit (apply_policy x u i) = i_unit i \<or>
   (u = ''cup'' \<and> (i_unit (apply_policy x u i) = Some ''tbsp'' \<or> i_unit (apply_policy x u i) = Some ''tsp'')) \<or>
   (u = ''tbsp'' \<and> i_unit (apply_policy x u i) = Some ''tsp'')"
  unfolding apply_policy_def Let_def by (simp split: if_splits)

lemma scale_ingredient_unit:
  assumes "scale_ingredient f i = Inr i'"
  shows "i_unit i' = i_unit i \<or>
   (i_unit i = Some ''cup'' \<and> (i_unit i' = Some ''tbsp'' \<or> i_unit i' = Some ''tsp'')) \<or>
   (i_unit i = Some ''tbsp'' \<and> i_unit i' = Some ''tsp'')"
proof -
  from assms obtain a u where a: "i_amount i = Some a" and u: "i_unit i = Some u"
    and i': "i' = apply_policy (a * f) u i"
    by (auto simp: scale_ingredient_def Let_def split: option.splits)
  show ?thesis
    using apply_policy_unit [of "a * f" u i] unfolding i' u by blast
qed

text \<open>
  C10. Whenever \<open>scale_recipe\<close> returns a recipe, its ingredients correspond one for one
  to those of the input, and each keeps its unit unless it went from cup to tbsp, from
  cup to tsp or from tbsp to tsp. So an ingredient of the result has a weight unit only
  if it had that unit before: the loop never calls \<open>get_best_unit\<close>, and nothing else in
  it writes a weight unit.
\<close>

theorem scale_recipe_units:
  assumes "scale_recipe recipe new_servings = (printed, Inr (Some scaled_recipe))"
  shows "\<exists>r ingredients scaled. recipe = Some r \<and> r_ingredients r = Some ingredients \<and>
           r_ingredients scaled_recipe = Some scaled \<and>
           list_all2
             (\<lambda>i i'. i_unit i' = i_unit i \<or>
                (i_unit i = Some ''cup'' \<and> (i_unit i' = Some ''tbsp'' \<or> i_unit i' = Some ''tsp'')) \<or>
                (i_unit i = Some ''tbsp'' \<and> i_unit i' = Some ''tsp''))
             ingredients scaled \<and>
           list_all2 (\<lambda>i i'. i_unit i' \<in> Some ` set weight_units \<longrightarrow> i_unit i = i_unit i')
             ingredients scaled"
proof -
  from assms obtain r servings ingredients scaled where
    r: "recipe = Some r" "r_ingredients r = Some ingredients" and
    s: "scale_ingredients (of_int new_servings / servings) ingredients = Inr scaled" and
    o: "scaled_recipe = r\<lparr>r_servings := Some (of_int new_servings), r_ingredients := Some scaled\<rparr>"
    by (auto simp: scale_recipe_def Let_def split: if_splits option.splits sum.splits)
  have a: "list_all2 (\<lambda>i i'. scale_ingredient (of_int new_servings / servings) i = Inr i') ingredients scaled"
    using s by (rule scale_ingredients_Inr)
  have 1: "list_all2
             (\<lambda>i i'. i_unit i' = i_unit i \<or>
                (i_unit i = Some ''cup'' \<and> (i_unit i' = Some ''tbsp'' \<or> i_unit i' = Some ''tsp'')) \<or>
                (i_unit i = Some ''tbsp'' \<and> i_unit i' = Some ''tsp''))
             ingredients scaled"
    using a by (rule list_all2_mono) (rule scale_ingredient_unit)
  have 2: "list_all2 (\<lambda>i i'. i_unit i' \<in> Some ` set weight_units \<longrightarrow> i_unit i = i_unit i')
             ingredients scaled"
    using 1 by (rule list_all2_mono) (auto simp: weight_units_def)
  show ?thesis using r o 1 2 by simp
qed

lemma scale_recipe_dip:
  "scale_recipe
          (Some \<lparr>r_name = Some ''Dip'', r_servings = Some 10,
                 r_ingredients = Some [\<lparr>i_name = Some ''oil'', i_amount = Some 2, i_unit = Some ''cup''\<rparr>]\<rparr>) 1 =
        ([], Inr (Some \<lparr>r_name = Some ''Dip'', r_servings = Some 1,
           r_ingredients = Some [\<lparr>i_name = Some ''oil'', i_amount = Some (16 / 5), i_unit = Some ''tbsp''\<rparr>]\<rparr>))"
  by (simp add: scale_recipe_def not_recipe_def scale_ingredient_def apply_policy_def
        round_nd_def py_round_def Let_def)

theorem scale_recipe_units_witness:
  "\<exists>r ingredients scaled.
     Some \<lparr>r_name = Some ''Dip'', r_servings = Some 10,
           r_ingredients = Some [\<lparr>i_name = Some ''oil'', i_amount = Some 2, i_unit = Some ''cup''\<rparr>]\<rparr> = Some r \<and>
     r_ingredients r = Some ingredients \<and>
     r_ingredients \<lparr>r_name = Some ''Dip'', r_servings = Some 1,
           r_ingredients = Some [\<lparr>i_name = Some ''oil'', i_amount = Some (16 / 5), i_unit = Some ''tbsp''\<rparr>]\<rparr> = Some scaled \<and>
     list_all2
       (\<lambda>i i'. i_unit i' = i_unit i \<or>
          (i_unit i = Some ''cup'' \<and> (i_unit i' = Some ''tbsp'' \<or> i_unit i' = Some ''tsp'')) \<or>
          (i_unit i = Some ''tbsp'' \<and> i_unit i' = Some ''tsp''))
       ingredients scaled \<and>
     list_all2 (\<lambda>i i'. i_unit i' \<in> Some ` set weight_units \<longrightarrow> i_unit i = i_unit i')
       ingredients scaled"
  using scale_recipe_dip by (rule scale_recipe_units)

section \<open>convert_units\<close>

lemma lower_char_idem: "lower_char (lower_char c) = lower_char c"
  unfolding lower_char_def by (simp split: if_splits)

lemma lower_idem: "lower (lower s) = lower s"
  by (simp add: lower_def lower_char_idem)

text \<open>
  Names that differ after lowercasing are matched without regard to case, as the two
  calls of \<^verbatim>\<open>.lower()\<close> intend.
\<close>

lemma convert_units_lower:
  "lower unit \<noteq> lower target_unit \<Longrightarrow>
   convert_units amount unit target_unit = convert_units amount (lower unit) (lower target_unit)"
  by (auto simp: convert_units_def lower_idem Let_def)

text \<open>
  C9 fails on the code for two spellings of one unit. \<^verbatim>\<open>'Cup'\<close> and \<^verbatim>\<open>'cup'\<close> are
  different strings, so the identity test, which precedes the lowercasing, does not
  apply; after lowercasing both are \<^verbatim>\<open>'cup'\<close>, the table has no entry from a unit to
  itself, and the caught \<^verbatim>\<open>KeyError\<close> leads to \<^verbatim>\<open>(None, None)\<close>. With both names
  lowercased beforehand the same call is the identity.
\<close>

theorem convert_units_case_failure:
  "convert_units 1 ''Cup'' ''cup'' = None \<and>
   convert_units 1 (lower ''Cup'') (lower ''cup'') = Some (1, ''cup'')"
  by (simp add: convert_units_def lower_def lower_char_def volume_units_def weight_units_def
      conversion_factor_def CONVERSIONS_def)












section \<open>get_best_unit and the display of cups\<close>





text \<open>
  The downshift of \<open>get_best_unit\<close> is not the one of the scaling loop: a cup amount
  below a sixteenth stays in cups, and tablespoons go to teaspoons from a third up to 1.
\<close>

lemma best_volume_unit_examples:
  "best_volume_unit (1 / 20) ''cup'' = (1 / 20, ''cup'')"
  "best_volume_unit (1 / 5) ''cup'' = (16 / 5, ''tbsp'')"
  "best_volume_unit (7 / 10) ''tbsp'' = (21 / 10, ''tsp'')"
  "best_volume_unit (1 / 5) ''tbsp'' = (1 / 5, ''tbsp'')"
  by (simp_all add: best_volume_unit_def round_nd_def py_round_def Let_def)




section \<open>The store: what scale_recipe writes to\<close>

lemma lookup_append:
  "lookup s a = Some x \<Longrightarrow> lookup (s @ ext) a = Some x"
  by (auto simp: lookup_def nth_append split: if_splits)

lemma read_ingredients_append:
  "read_ingredients s as = Some ds \<Longrightarrow> read_ingredients (s @ ext) as = Some ds"
proof (induction as arbitrary: ds)
  case Nil
  then show ?case by simp
next
  case (Cons a as)
  then show ?case
    by (auto simp: lookup_append split: option.splits obj.splits)
qed

lemma read_recipe_append:
  "read_recipe s a = Some r \<Longrightarrow> read_recipe (s @ ext) a = Some r"
  unfolding read_recipe_def
  by (auto simp: lookup_append read_ingredients_append split: option.splits obj.splits)

text \<open>Copying appends one object for each element of the list.\<close>

lemma copy_each_shape:
  "copy_each s as = Some (s', copies) \<Longrightarrow>
   (\<exists>ext. s' = s @ ext \<and> length ext = length as) \<and> copies = [length s..<length s + length as]"
proof (induction as arbitrary: s s' copies)
  case Nil
  then show ?case by simp
next
  case (Cons a as)
  from Cons.prems obtain d s'' copies' where
    d: "lookup s a = Some (IngredientDict d)" and
    c: "copy_each (s @ [IngredientDict d]) as = Some (s'', copies')" and
    e: "s' = s''" "copies = length s # copies'"
    by (auto split: option.splits obj.splits)
  from Cons.IH [OF c] obtain ext where
    x: "s'' = (s @ [IngredientDict d]) @ ext" "length ext = length as"
    and y: "copies' = [length (s @ [IngredientDict d])..<length (s @ [IngredientDict d]) + length as]"
    by blast
  have "s' = s @ (IngredientDict d # ext) \<and> length (IngredientDict d # ext) = length (a # as)"
    using x e by simp
  moreover have "[length s..<length s + length (a # as)] =
                 length s # [Suc (length s)..<Suc (length s) + length as]"
    by (subst upt_rec) simp
  then have "copies = [length s..<length s + length (a # as)]"
    using y e by simp
  ultimately show ?case by blast
qed

lemma copy_each_read:
  "read_ingredients s as = Some ds \<Longrightarrow>
   \<exists>s' copies. copy_each s as = Some (s', copies) \<and> read_ingredients s' copies = Some ds"
proof (induction as arbitrary: s ds)
  case Nil
  then show ?case by simp
next
  case (Cons a as)
  from Cons.prems obtain d ds' where
    d: "lookup s a = Some (IngredientDict d)" and
    r: "read_ingredients s as = Some ds'" and e: "ds = d # ds'"
    by (auto split: option.splits obj.splits)
  let ?s1 = "s @ [IngredientDict d]"
  have "read_ingredients ?s1 as = Some ds'"
    using r by (rule read_ingredients_append)
  from Cons.IH [OF this] obtain s' copies where
    c: "copy_each ?s1 as = Some (s', copies)" and r': "read_ingredients s' copies = Some ds'"
    by blast
  from copy_each_shape [OF c] obtain ext where s': "s' = ?s1 @ ext" by blast
  have "lookup s' (length s) = Some (IngredientDict d)"
    unfolding s' by (simp add: lookup_def nth_append)
  then have "read_ingredients s' (length s # copies) = Some ds"
    using r' e by simp
  moreover have "copy_each s (a # as) = Some (s', length s # copies)"
    using d c by simp
  ultimately show ?case by blast
qed

lemma lookup_update_other:
  "a \<noteq> b \<Longrightarrow> lookup (s[b := x]) a = lookup s a"
  by (simp add: lookup_def)

lemma read_ingredients_update:
  "b \<notin> set as \<Longrightarrow> read_ingredients (s[b := x]) as = read_ingredients s as"
  by (induction as) (auto simp: lookup_update_other split: option.splits obj.splits)

text \<open>The loop writes only to the addresses it is given.\<close>

lemma scale_each_frame:
  "scale_each f s as = Some (s', e) \<Longrightarrow>
   length s' = length s \<and> (\<forall>a. a \<notin> set as \<longrightarrow> s' ! a = s ! a)"
proof (induction as arbitrary: s)
  case Nil
  then show ?case by simp
next
  case (Cons a as)
  from Cons.prems obtain d where d: "lookup s a = Some (IngredientDict d)"
    by (auto split: option.splits obj.splits)
  show ?case
  proof (cases "scale_ingredient f d")
    case (Inl ex)
    then show ?thesis using Cons.prems d by simp
  next
    case (Inr d')
    then have "scale_each f (s[a := IngredientDict d']) as = Some (s', e)"
      using Cons.prems d by simp
    from Cons.IH [OF this] show ?thesis by auto
  qed
qed

text \<open>On distinct addresses the loop does what \<open>scale_ingredients\<close> does on values.\<close>

lemma scale_each_refines:
  "distinct as \<Longrightarrow> read_ingredients s as = Some ds \<Longrightarrow>
   \<exists>s' e. scale_each f s as = Some (s', e) \<and>
     (case e of
        None \<Rightarrow> \<exists>ds'. scale_ingredients f ds = Inr ds' \<and> read_ingredients s' as = Some ds'
      | Some ex \<Rightarrow> scale_ingredients f ds = Inl ex)"
proof (induction as arbitrary: s ds)
  case Nil
  then show ?case by simp
next
  case (Cons a as)
  from Cons.prems(2) obtain d ds0 where
    d: "lookup s a = Some (IngredientDict d)" and
    r: "read_ingredients s as = Some ds0" and ds: "ds = d # ds0"
    by (auto split: option.splits obj.splits)
  have a: "a \<notin> set as" "distinct as" "a < length s"
    using Cons.prems(1) d by (auto simp: lookup_def split: if_splits)
  show ?case
  proof (cases "scale_ingredient f d")
    case (Inl ex)
    then show ?thesis using d ds by simp
  next
    case (Inr d')
    let ?s1 = "s[a := IngredientDict d']"
    have "read_ingredients ?s1 as = Some ds0"
      using r a(1) by (simp add: read_ingredients_update)
    from Cons.IH [OF a(2) this] obtain s' e where
      se: "scale_each f ?s1 as = Some (s', e)" and
      c: "case e of
            None \<Rightarrow> \<exists>ds'. scale_ingredients f ds0 = Inr ds' \<and> read_ingredients s' as = Some ds'
          | Some ex \<Rightarrow> scale_ingredients f ds0 = Inl ex"
      by blast
    have step: "scale_each f s (a # as) = Some (s', e)"
      using d Inr se by simp
    have "length s' = length s" "s' ! a = IngredientDict d'"
      using scale_each_frame [OF se] a by auto
    then have l: "lookup s' a = Some (IngredientDict d')"
      using a(3) by (simp add: lookup_def)
    show ?thesis
    proof (cases e)
      case None
      with c obtain ds' where "scale_ingredients f ds0 = Inr ds'" "read_ingredients s' as = Some ds'"
        by auto
      then have "scale_ingredients f ds = Inr (d' # ds') \<and> read_ingredients s' (a # as) = Some (d' # ds')"
        using Inr ds l by simp
      then show ?thesis using step None by auto
    next
      case (Some ex)
      with c have "scale_ingredients f ds = Inl ex"
        using Inr ds by simp
      then show ?thesis using step Some by auto
    qed
  qed
qed

text \<open>The path of \<open>scale_recipe\<close> that copies: both keys present, \<open>new_servings\<close> positive.\<close>

lemma scale_recipe_store_main:
  assumes a: "lookup s a = Some (RecipeDict rd)"
    and sv: "d_servings rd = Some servings" and il: "d_ingredients rd = Some l"
    and la: "lookup s l = Some (ListObj as)" and ri: "read_ingredients s as = Some ds"
    and n: "0 < new_servings"
  shows "\<exists>printed s' result.
           scale_recipe_store s (Some a) new_servings = Some (printed, s', result) \<and>
           take (length s) s' = s \<and> length s \<le> length s' \<and>
           scale_recipe (Some \<lparr>r_name = d_name rd, r_servings = d_servings rd, r_ingredients = Some ds\<rparr>)
               new_servings =
             (printed, map_sum id (\<lambda>ref. Option.bind ref (read_recipe s')) result) \<and>
           (\<forall>a'. result = Inr (Some a') \<longrightarrow>
              (\<exists>r' l' copies. a' = length s \<and> lookup s' a' = Some (RecipeDict r') \<and>
                 d_ingredients r' = Some l' \<and> length s \<le> l' \<and>
                 lookup s' l' = Some (ListObj copies) \<and> (\<forall>c \<in> set copies. length s \<le> c)))"
proof -
  let ?r = "\<lparr>r_name = d_name rd, r_servings = d_servings rd, r_ingredients = Some ds\<rparr>"
  let ?s1 = "s @ [RecipeDict rd]"
  have "read_ingredients ?s1 as = Some ds"
    using ri by (rule read_ingredients_append)
  from copy_each_read [OF this] obtain s2 copies where
    ce: "copy_each ?s1 as = Some (s2, copies)" and rc: "read_ingredients s2 copies = Some ds"
    by blast
  from copy_each_shape [OF ce] obtain ext where
    s2: "s2 = ?s1 @ ext" and ext: "length ext = length as"
    and copies: "copies = [length ?s1..<length ?s1 + length as]"
    by blast
  let ?l' = "length s2"
  let ?rd3 = "rd\<lparr>d_ingredients := Some ?l'\<rparr>"
  let ?s3 = "(s2 @ [ListObj copies])[length s := RecipeDict ?rd3]"
  have dc: "distinct copies" and cs: "\<forall>c \<in> set copies. length s < c \<and> c < ?l'"
    using copies s2 ext by auto
  have t3: "take (length s) ?s3 = s" "length s \<le> length ?s3"
    using s2 by simp_all
  have nr: "\<not> not_recipe (Some ?r)"
    using sv by (simp add: not_recipe_def)
  show ?thesis
  proof (cases "servings = 0")
    case True
    have "scale_recipe_store s (Some a) new_servings = Some ([], ?s3, Inl ZeroDivisionError)"
      using a sv il la n ce True by (simp add: scale_recipe_store_def Let_def)
    moreover have "scale_recipe (Some ?r) new_servings = ([], Inl ZeroDivisionError)"
      using nr n sv True by (simp add: scale_recipe_def)
    ultimately show ?thesis using t3 by simp
  next
    case False
    let ?f = "of_int new_servings / servings"
    let ?rd4 = "rd\<lparr>d_servings := Some (of_int new_servings), d_ingredients := Some ?l'\<rparr>"
    let ?s4 = "?s3[length s := RecipeDict ?rd4]"
    have "read_ingredients (s2 @ [ListObj copies]) copies = Some ds"
      using rc by (rule read_ingredients_append)
    moreover have "length s \<notin> set copies"
      using cs by auto
    ultimately have r4: "read_ingredients ?s4 copies = Some ds"
      by (simp add: read_ingredients_update)
    from scale_each_refines [OF dc r4, of ?f] obtain s5 e where
      se: "scale_each ?f ?s4 copies = Some (s5, e)" and
      c: "case e of
            None \<Rightarrow> \<exists>ds'. scale_ingredients ?f ds = Inr ds' \<and> read_ingredients s5 copies = Some ds'
          | Some ex \<Rightarrow> scale_ingredients ?f ds = Inl ex"
      by blast
    have fr: "length s5 = length ?s4" "\<forall>a. a \<notin> set copies \<longrightarrow> s5 ! a = ?s4 ! a"
      using scale_each_frame [OF se] by auto
    have len: "length s5 = Suc ?l'" "length s < ?l'"
      using fr(1) s2 by auto
    have "\<forall>i < length s. s5 ! i = s ! i"
    proof (intro allI impI)
      fix i assume i: "i < length s"
      then have "i \<notin> set copies" using cs by auto
      then have "s5 ! i = ?s4 ! i" using fr(2) by blast
      also have "\<dots> = s ! i" using i s2 by (simp add: nth_append)
      finally show "s5 ! i = s ! i" .
    qed
    then have t5: "take (length s) s5 = s"
      using len by (intro nth_equalityI) auto
    show ?thesis
    proof (cases e)
      case (Some ex)
      have "scale_recipe_store s (Some a) new_servings = Some ([], s5, Inl ex)"
        using a sv il la n ce False se Some by (simp add: scale_recipe_store_def Let_def)
      moreover have "scale_recipe (Some ?r) new_servings = ([], Inl ex)"
        using nr n sv False c Some by (simp add: scale_recipe_def)
      ultimately show ?thesis using t5 len by simp
    next
      case None
      with c obtain ds' where
        ds': "scale_ingredients ?f ds = Inr ds'" "read_ingredients s5 copies = Some ds'"
        by auto
      have st: "scale_recipe_store s (Some a) new_servings = Some ([], s5, Inr (Some (length s)))"
        using a sv il la n ce False se None by (simp add: scale_recipe_store_def Let_def)
      have "length s \<notin> set copies" "?l' \<notin> set copies"
        using cs by auto
      then have "s5 ! length s = ?s4 ! length s" "s5 ! ?l' = ?s4 ! ?l'"
        using fr(2) by auto
      then have l5: "lookup s5 (length s) = Some (RecipeDict ?rd4)"
        "lookup s5 ?l' = Some (ListObj copies)"
        using len by (simp_all add: lookup_def)
      then have rr: "read_recipe s5 (length s) =
          Some (?r\<lparr>r_servings := Some (of_int new_servings), r_ingredients := Some ds'\<rparr>)"
        using ds'(2) by (simp add: read_recipe_def)
      have "scale_recipe (Some ?r) new_servings =
          ([], Inr (Some (?r\<lparr>r_servings := Some (of_int new_servings), r_ingredients := Some ds'\<rparr>)))"
        using nr n sv False ds'(1) by (simp add: scale_recipe_def)
      then have pure: "scale_recipe (Some ?r) new_servings =
          ([], map_sum id (\<lambda>ref. Option.bind ref (read_recipe s5)) (Inr (Some (length s))))"
        using rr by simp
      have fresh: "\<exists>r' l' copies'. lookup s5 (length s) = Some (RecipeDict r') \<and>
                 d_ingredients r' = Some l' \<and> length s \<le> l' \<and>
                 lookup s5 l' = Some (ListObj copies') \<and> (\<forall>c \<in> set copies'. length s \<le> c)"
        using l5 len cs by (intro exI [of _ ?rd4] exI [of _ ?l'] exI [of _ copies]) auto
      show ?thesis
        using st t5 len pure fresh by auto
    qed
  qed
qed

text \<open>
  C3. Let the address \<open>a\<close> hold a recipe \<open>r\<close> (a recipe dictionary, its list of
  ingredients and their dictionaries, in any store and with any sharing between them).
  Then \<open>scale_recipe\<close> terminates normally or with an exception, and in the store it
  leaves every object that existed before the call is what it was: the store has only
  grown, and the recipe read at \<open>a\<close> is still \<open>r\<close>. A reference it returns is to a new
  object, whose ingredient list and ingredient dictionaries are new objects too. What it
  prints and returns is what \<open>scale_recipe\<close> on values computes from \<open>r\<close>.
\<close>

theorem scale_recipe_store_frame:
  assumes "read_recipe s a = Some r"
  shows "\<exists>printed s' result.
           scale_recipe_store s (Some a) new_servings = Some (printed, s', result) \<and>
           take (length s) s' = s \<and>
           read_recipe s' a = Some r \<and>
           scale_recipe (Some r) new_servings =
             (printed, map_sum id (\<lambda>ref. Option.bind ref (read_recipe s')) result) \<and>
           (\<forall>a'. result = Inr (Some a') \<longrightarrow>
              (\<exists>r' l' copies. a' = length s \<and> lookup s' a' = Some (RecipeDict r') \<and>
                 d_ingredients r' = Some l' \<and> length s \<le> l' \<and>
                 lookup s' l' = Some (ListObj copies) \<and> (\<forall>c \<in> set copies. length s \<le> c)))"
proof -
  from assms obtain rd where a: "lookup s a = Some (RecipeDict rd)"
    by (auto simp: read_recipe_def split: option.splits obj.splits)
  have rn: "r_name r = d_name rd" "r_servings r = d_servings rd"
    "r_ingredients r = None \<longleftrightarrow> d_ingredients rd = None"
    using assms a by (auto simp: read_recipe_def split: option.splits obj.splits)
  have *: "\<exists>printed s' result.
           scale_recipe_store s (Some a) new_servings = Some (printed, s', result) \<and>
           take (length s) s' = s \<and> length s \<le> length s' \<and>
           scale_recipe (Some r) new_servings =
             (printed, map_sum id (\<lambda>ref. Option.bind ref (read_recipe s')) result) \<and>
           (\<forall>a'. result = Inr (Some a') \<longrightarrow>
              (\<exists>r' l' copies. a' = length s \<and> lookup s' a' = Some (RecipeDict r') \<and>
                 d_ingredients r' = Some l' \<and> length s \<le> l' \<and>
                 lookup s' l' = Some (ListObj copies) \<and> (\<forall>c \<in> set copies. length s \<le> c)))"
  proof (cases "(d_name rd = None \<and> d_servings rd = None \<and> d_ingredients rd = None) \<or> new_servings \<le> 0")
    case True
    then have "scale_recipe_store s (Some a) new_servings =
        Some ([''Error: Invalid recipe or serving size.''], s, Inr None)"
      using a by (simp add: scale_recipe_store_def)
    moreover have "scale_recipe (Some r) new_servings =
        ([''Error: Invalid recipe or serving size.''], Inr None)"
      using True rn by (auto simp: scale_recipe_def not_recipe_def)
    ultimately show ?thesis by simp
  next
    case valid: False
    then have nr: "\<not> not_recipe (Some r)" and n: "0 < new_servings"
      using rn by (auto simp: not_recipe_def)
    show ?thesis
    proof (cases "d_servings rd = None \<or> d_ingredients rd = None")
      case True
      then have "scale_recipe_store s (Some a) new_servings =
          Some ([''Error: Invalid recipe format.''], s, Inr None)"
        using a valid by (auto simp: scale_recipe_store_def split: option.splits)
      moreover have "scale_recipe (Some r) new_servings =
          ([''Error: Invalid recipe format.''], Inr None)"
        using True rn nr n by (auto simp: scale_recipe_def split: option.splits)
      ultimately show ?thesis by simp
    next
      case False
      then obtain servings l where sv: "d_servings rd = Some servings" and il: "d_ingredients rd = Some l"
        by auto
      from assms a il obtain as ds where
        la: "lookup s l = Some (ListObj as)" and ri: "read_ingredients s as = Some ds"
        and r: "r = \<lparr>r_name = d_name rd, r_servings = d_servings rd, r_ingredients = Some ds\<rparr>"
        by (auto simp: read_recipe_def split: option.splits obj.splits)
      show ?thesis
        unfolding r by (rule scale_recipe_store_main [OF a sv il la ri n])
    qed
  qed
  then obtain printed s' result where
    st: "scale_recipe_store s (Some a) new_servings = Some (printed, s', result)" and
    t: "take (length s) s' = s" "length s \<le> length s'" and
    rest: "scale_recipe (Some r) new_servings =
             (printed, map_sum id (\<lambda>ref. Option.bind ref (read_recipe s')) result)"
       "\<forall>a'. result = Inr (Some a') \<longrightarrow>
              (\<exists>r' l' copies. a' = length s \<and> lookup s' a' = Some (RecipeDict r') \<and>
                 d_ingredients r' = Some l' \<and> length s \<le> l' \<and>
                 lookup s' l' = Some (ListObj copies) \<and> (\<forall>c \<in> set copies. length s \<le> c))"
    by blast
  have "s' = s @ drop (length s) s'"
    using t(1) append_take_drop_id [of "length s" s'] by simp
  then have "read_recipe s' a = Some r"
    using read_recipe_append [OF assms, of "drop (length s) s'"] by simp
  with st t rest show ?thesis by blast
qed

text \<open>A list that holds the same ingredient dictionary twice.\<close>

theorem scale_recipe_store_frame_witness:
  "\<exists>printed s' result.
     scale_recipe_store
       [IngredientDict \<lparr>i_name = Some ''eggs'', i_amount = Some 2, i_unit = Some ''piece''\<rparr>,
        ListObj [0, 0],
        RecipeDict \<lparr>d_name = Some ''Omelette'', d_servings = Some 2, d_ingredients = Some 1\<rparr>]
       (Some 2) 4 = Some (printed, s', result) \<and>
     read_recipe s' 2 =
       Some \<lparr>r_name = Some ''Omelette'', r_servings = Some 2,
             r_ingredients = Some [\<lparr>i_name = Some ''eggs'', i_amount = Some 2, i_unit = Some ''piece''\<rparr>,
                                   \<lparr>i_name = Some ''eggs'', i_amount = Some 2, i_unit = Some ''piece''\<rparr>]\<rparr> \<and>
     scale_recipe
       (Some \<lparr>r_name = Some ''Omelette'', r_servings = Some 2,
             r_ingredients = Some [\<lparr>i_name = Some ''eggs'', i_amount = Some 2, i_unit = Some ''piece''\<rparr>,
                                   \<lparr>i_name = Some ''eggs'', i_amount = Some 2, i_unit = Some ''piece''\<rparr>]\<rparr>) 4 =
       (printed, map_sum id (\<lambda>ref. Option.bind ref (read_recipe s')) result)"
proof -
  have h: "read_recipe
       [IngredientDict \<lparr>i_name = Some ''eggs'', i_amount = Some 2, i_unit = Some ''piece''\<rparr>,
        ListObj [0, 0],
        RecipeDict \<lparr>d_name = Some ''Omelette'', d_servings = Some 2, d_ingredients = Some 1\<rparr>] 2 =
       Some \<lparr>r_name = Some ''Omelette'', r_servings = Some 2,
             r_ingredients = Some [\<lparr>i_name = Some ''eggs'', i_amount = Some 2, i_unit = Some ''piece''\<rparr>,
                                   \<lparr>i_name = Some ''eggs'', i_amount = Some 2, i_unit = Some ''piece''\<rparr>]\<rparr>"
    by (simp add: read_recipe_def lookup_def)
  show ?thesis
    using scale_recipe_store_frame [OF h, of 4] by blast
qed

end
